theory Spec2Isabelle
  imports Complex_Main
begin

section \<open>JavaScript values\<close>

text \<open>
  The components receive values of TypeScript type \<open>any\<close>. A value is one of the
  runtime kinds that \<open>typeof\<close> and \<open>Array.isArray\<close> tell apart. A string is the
  list of its code units, so \<open>length\<close> is the \<open>.length\<close> of the program. A number is
  an IEEE double: not-a-number, an infinity, or a finite value, taken here as the
  rational it denotes. An object is the list of its own enumerable string-keyed
  properties, in the order in which \<open>Object.entries\<close> reports them. Values are finite
  trees: a cyclic object graph has no counterpart.
\<close>

datatype jsnumber = NaN | NegInfinity | Finite rat | PosInfinity

datatype jsvalue =
    JUndefined
  | JNull
  | JBoolean bool
  | JNumber jsnumber
  | JString string
  | JBigInt int
  | JSymbol string
  | JFunction string
  | JArray "jsvalue list"
  | JObject "(string \<times> jsvalue) list"

text \<open>The exceptions a built-in operation of the language can throw.\<close>

datatype error = TypeError | RangeError

text \<open>
  The rendered tree: a text child, a number child (React prints it in decimal), or an
  element with its tag, its \<open>className\<close> and its children. The \<open>key\<close> of a list child
  only guides reconciliation and is not part of the output. A child component is
  expanded in place, as the render pass does.
\<close>

datatype node = Text string | Num nat | Element string "string option" "node list"

subsection \<open>Operators and built-ins\<close>

fun typeof :: "jsvalue \<Rightarrow> string" where
  "typeof JUndefined = ''undefined''"
| "typeof JNull = ''object''"
| "typeof (JBoolean b) = ''boolean''"
| "typeof (JNumber n) = ''number''"
| "typeof (JString s) = ''string''"
| "typeof (JBigInt i) = ''bigint''"
| "typeof (JSymbol d) = ''symbol''"
| "typeof (JFunction src) = ''function''"
| "typeof (JArray xs) = ''object''"
| "typeof (JObject es) = ''object''"

fun Array_isArray :: "jsvalue \<Rightarrow> bool" where
  "Array_isArray (JArray xs) = True"
| "Array_isArray v = False"

text \<open>Truthiness, as \<open>!data\<close> and \<open>&&\<close> test it.\<close>

fun truthy :: "jsvalue \<Rightarrow> bool" where
  "truthy JUndefined = False"
| "truthy JNull = False"
| "truthy (JBoolean b) = b"
| "truthy (JNumber NaN) = False"
| "truthy (JNumber (Finite q)) = (q \<noteq> 0)"
| "truthy (JNumber n) = True"
| "truthy (JString s) = (s \<noteq> [])"
| "truthy (JBigInt i) = (i \<noteq> 0)"
| "truthy v = True"

definition digit_char :: "nat \<Rightarrow> char" where
  "digit_char d = ''0123456789'' ! d"

text \<open>The decimal numeral of a natural number and of an integer.\<close>

fun String_nat :: "nat \<Rightarrow> string" where
  "String_nat n =
     (if n < 10 then [digit_char n] else String_nat (n div 10) @ [digit_char (n mod 10)])"

declare String_nat.simps [simp del]

definition String_int :: "int \<Rightarrow> string" where
  "String_int i = (if i < 0 then CHR ''-'' # String_nat (nat (- i)) else String_nat (nat i))"

text \<open>\<open>Array.prototype.join\<close> on strings.\<close>

fun join :: "string \<Rightarrow> string list \<Rightarrow> string" where
  "join sep [] = []"
| "join sep [x] = x"
| "join sep (x # y # ys) = x @ sep @ join sep (y # ys)"

text \<open>
  \<open>Number.prototype.toString\<close>. The three non-finite numbers have fixed names; the
  shortest round-trip numeral of a finite double is the parameter \<open>ns\<close>.
\<close>

fun Number_toString :: "(rat \<Rightarrow> string) \<Rightarrow> jsnumber \<Rightarrow> string" where
  "Number_toString ns NaN = ''NaN''"
| "Number_toString ns PosInfinity = ''Infinity''"
| "Number_toString ns NegInfinity = ''-Infinity''"
| "Number_toString ns (Finite q) = ns q"

text \<open>
  Rendering a list of children, or converting the elements of an array: an exception
  thrown for any element aborts the whole.
\<close>

fun sequence :: "(error + 'a) list \<Rightarrow> error + 'a list" where
  "sequence [] = Inr []"
| "sequence (r # rs) =
     (case r of
        Inl e \<Rightarrow> Inl e
      | Inr x \<Rightarrow> (case sequence rs of Inl e \<Rightarrow> Inl e | Inr xs \<Rightarrow> Inr (x # xs)))"

text \<open>
  The abstract operation \<open>ToString\<close>: a symbol throws a \<open>TypeError\<close>; an array joins the
  conversions of its elements with commas, \<open>null\<close> and \<open>undefined\<close> counting as empty;
  a plain object is \<open>[object Object]\<close>; a function is its source text.
\<close>

fun ToString :: "(rat \<Rightarrow> string) \<Rightarrow> jsvalue \<Rightarrow> error + string" where
  "ToString ns JUndefined = Inr ''undefined''"
| "ToString ns JNull = Inr ''null''"
| "ToString ns (JBoolean b) = Inr (if b then ''true'' else ''false'')"
| "ToString ns (JNumber n) = Inr (Number_toString ns n)"
| "ToString ns (JString s) = Inr s"
| "ToString ns (JBigInt i) = Inr (String_int i)"
| "ToString ns (JSymbol d) = Inl TypeError"
| "ToString ns (JFunction src) = Inr src"
| "ToString ns (JArray xs) =
     (case sequence
             (map (\<lambda>x. if x = JNull \<or> x = JUndefined then Inr [] else ToString ns x) xs) of
        Inl e \<Rightarrow> Inl e
      | Inr strs \<Rightarrow> Inr (join '','' strs))"
| "ToString ns (JObject es) = Inr ''[object Object]''"

text \<open>
  The global conversion \<open>String(value)\<close>: the description of a symbol, and \<open>ToString\<close>
  of any other value.
\<close>

definition String_js :: "(rat \<Rightarrow> string) \<Rightarrow> jsvalue \<Rightarrow> error + string" where
  "String_js ns v =
     (case v of JSymbol d \<Rightarrow> Inr (''Symbol('' @ d @ '')'') | _ \<Rightarrow> ToString ns v)"

text \<open>
  A method call on a receiver. \<open>value.substring\<close> exists on strings and
  \<open>value.slice(..).map\<close> on arrays; on \<open>null\<close>, on \<open>undefined\<close> and on a receiver
  without the method the call throws a \<open>TypeError\<close>.
\<close>

fun as_string :: "jsvalue \<Rightarrow> error + string" where
  "as_string (JString s) = Inr s"
| "as_string v = Inl TypeError"

fun as_array :: "jsvalue \<Rightarrow> error + jsvalue list" where
  "as_array (JArray xs) = Inr xs"
| "as_array v = Inl TypeError"

text \<open>\<open>String.prototype.substring(start, end)\<close>: the bounds are swapped when out of order.\<close>

definition substring :: "string \<Rightarrow> nat \<Rightarrow> nat \<Rightarrow> string" where
  "substring s start end = take (max start end - min start end) (drop (min start end) s)"

text \<open>\<open>Array.prototype.slice(start, end)\<close> for non-negative bounds.\<close>

definition slice :: "'a list \<Rightarrow> nat \<Rightarrow> nat \<Rightarrow> 'a list" where
  "slice xs start end = take (end - start) (drop start xs)"

definition indexed :: "jsvalue list \<Rightarrow> (string \<times> jsvalue) list" where
  "indexed xs = map (\<lambda>p. (String_nat (fst p), snd p)) (enumerate 0 xs)"

text \<open>
  \<open>Object.entries(value)\<close>: throws on \<open>null\<close> and \<open>undefined\<close>; an array and a string
  list their indices as keys; the other primitives and a function have no entry.
\<close>

fun Object_entries :: "jsvalue \<Rightarrow> error + (string \<times> jsvalue) list" where
  "Object_entries JUndefined = Inl TypeError"
| "Object_entries JNull = Inl TypeError"
| "Object_entries (JString s) = Inr (indexed (map (\<lambda>c. JString [c]) s))"
| "Object_entries (JArray xs) = Inr (indexed xs)"
| "Object_entries (JObject es) = Inr es"
| "Object_entries v = Inr []"

section \<open>Label humanization\<close>

definition lower_letters :: string where
  "lower_letters = ''abcdefghijklmnopqrstuvwxyz''"

definition upper_letters :: string where
  "upper_letters = ''ABCDEFGHIJKLMNOPQRSTUVWXYZ''"

definition digits :: string where
  "digits = ''0123456789''"

text \<open>The class \<open>\w\<close> of a regular expression without the unicode flag.\<close>

definition is_word_char :: "char \<Rightarrow> bool" where
  "is_word_char c = (c \<in> set (upper_letters @ lower_letters @ digits @ ''_''))"

text \<open>\<open>l.toUpperCase()\<close> for a single character \<open>l\<close> matched by \<open>\w\<close>.\<close>

definition toUpperCase_char :: "char \<Rightarrow> char" where
  "toUpperCase_char c =
     (case map_of (zip lower_letters upper_letters) c of Some u \<Rightarrow> u | None \<Rightarrow> c)"

text \<open>\<open>s.replace(/_/g, ' ')\<close> and \<open>s.replace(/-/g, ' ')\<close>.\<close>

definition replace_all_char :: "char \<Rightarrow> char \<Rightarrow> string \<Rightarrow> string" where
  "replace_all_char a b s = map (\<lambda>c. if c = a then b else c) s"

text \<open>
  \<open>s.replace(/\b\w/g, l => l.toUpperCase())\<close>, scanning from the left: a character is
  matched when it is a word character and the character before it in \<open>s\<close> (if any) is
  not. \<open>prev\<close> tells whether the character before the rest is a word character.
\<close>

fun capitalize_from :: "bool \<Rightarrow> string \<Rightarrow> string" where
  "capitalize_from prev [] = []"
| "capitalize_from prev (c # cs) =
     (if is_word_char c \<and> \<not> prev then toUpperCase_char c else c)
       # capitalize_from (is_word_char c) cs"

definition capitalize_words :: "string \<Rightarrow> string" where
  "capitalize_words s = capitalize_from False s"

text \<open>
  \<open>key.replace(/_/g, ' ').replace(/\b\w/g, l => l.toUpperCase())\<close>, the expression
  shared by \<open>getAssetTypeInfo\<close>, \<open>renderAssetContent\<close> and \<open>SmartValueRenderer\<close>.
\<close>

definition humanize_key :: "string \<Rightarrow> string" where
  "humanize_key key = capitalize_words (replace_all_char CHR ''_'' CHR '' '' key)"

text \<open>
  The humanized label as the specification words it: every underscore becomes a space,
  and the first character of each word is put in upper case. A word is a maximal run
  of word characters; position \<open>i\<close> starts a word when its character is a word
  character and no word character stands before it.
\<close>

definition word_start :: "string \<Rightarrow> nat \<Rightarrow> bool" where
  "word_start s i = (is_word_char (s ! i) \<and> (i = 0 \<or> \<not> is_word_char (s ! (i - 1))))"

definition spec_capitalized :: "string \<Rightarrow> string" where
  "spec_capitalized s =
     map (\<lambda>i. if word_start s i then toUpperCase_char (s ! i) else s ! i) [0..<length s]"

definition spec_humanized :: "string \<Rightarrow> string" where
  "spec_humanized key =
     spec_capitalized (map (\<lambda>c. if c = CHR ''_'' then CHR '' '' else c) key)"

section \<open>SmartValueRenderer\<close>

definition null_marker :: node where
  "null_marker = Element ''span'' (Some ''text-gray-400 italic'') [Text ''null'']"

definition empty_list_marker :: node where
  "empty_list_marker = Element ''span'' (Some ''text-gray-400 italic'') [Text ''Empty list'']"

definition empty_object_marker :: node where
  "empty_object_marker = Element ''span'' (Some ''text-gray-400 italic'') [Text ''Empty object'']"

text \<open>The body of the callback of \<open>value.slice(0, 5).map((item, index) => ...)\<close>.\<close>

definition item_box :: "nat \<Rightarrow> node \<Rightarrow> node" where
  "item_box index rendered =
     Element ''div'' (Some ''bg-gray-50 rounded p-2 text-sm'')
       [Element ''div'' (Some ''text-xs text-gray-500 mb-1'') [Text ''Item '', Num (index + 1)],
        rendered]"

text \<open>The body of the callback of \<open>entries.slice(0, 3).map(([key, val]) => ...)\<close>.\<close>

definition entry_box :: "string \<Rightarrow> node \<Rightarrow> node" where
  "entry_box key rendered =
     Element ''div'' (Some ''bg-gray-50 rounded p-2'')
       [Element ''div'' (Some ''text-xs font-medium text-gray-600 mb-1'') [Text (humanize_key key)],
        Element ''div'' (Some ''text-sm'') [rendered]]"

definition more_items_marker :: "nat \<Rightarrow> node" where
  "more_items_marker n =
     Element ''div'' (Some ''text-xs text-gray-500 text-center'')
       [Text ''+ '', Num n, Text '' more items'']"

definition more_properties_marker :: "nat \<Rightarrow> node" where
  "more_properties_marker n =
     Element ''div'' (Some ''text-xs text-gray-500 text-center'')
       [Text ''+ '', Num n, Text '' more properties'']"

definition in_box :: "(node \<Rightarrow> node) \<Rightarrow> error + node \<Rightarrow> error + node" where
  "in_box box r = (case r of Inl e \<Rightarrow> Inl e | Inr rendered \<Rightarrow> Inr (box rendered))"

lemma size_nth_less: "i < length xs \<Longrightarrow> size (xs ! i) < Suc (size_list size xs)"
  using size_list_estimation' [of "xs ! i" xs "size (xs ! i)" size] by simp

lemma size_entry_less:
  "p \<in> set (take n es) \<Longrightarrow> size (snd p) < Suc (size_list (size_prod (\<lambda>k. 0) size) es)"
  using size_list_estimation' [of p es "size (snd p)" "size_prod (\<lambda>k. 0) size"]
  by (cases p) (auto dest: in_set_takeD)

lemma Object_entries_object:
  "Object_entries v = Inr es \<Longrightarrow> typeof v = ''object'' \<Longrightarrow> \<not> Array_isArray v \<Longrightarrow> v = JObject es"
  by (cases v) auto

function SmartValueRenderer :: "(rat \<Rightarrow> string) \<Rightarrow> jsvalue \<Rightarrow> error + node" where
  "SmartValueRenderer ns v =
    (if v = JNull \<or> v = JUndefined then Inr null_marker
     else if typeof v = ''string'' then
       (case as_string v of
          Inl e \<Rightarrow> Inl e
        | Inr s \<Rightarrow>
            if length s > 200 then
              Inr (Element ''div'' None
                [Element ''div'' (Some ''mb-2'') [Text (substring s 0 200), Text ''...''],
                 Element ''div'' (Some ''text-xs text-gray-500'')
                   [Text ''('', Num (length s), Text '' characters total)'']])
            else Inr (Element ''span'' None [Text s]))
     else if typeof v = ''number'' \<or> typeof v = ''boolean'' then
       (case String_js ns v of
          Inl e \<Rightarrow> Inl e
        | Inr str \<Rightarrow> Inr (Element ''span'' (Some ''font-medium'') [Text str]))
     else if Array_isArray v then
       (case as_array v of
          Inl e \<Rightarrow> Inl e
        | Inr xs \<Rightarrow>
            if length xs = 0 then Inr empty_list_marker
            else
              (case sequence
                      (map (\<lambda>p. in_box (item_box (fst p)) (SmartValueRenderer ns (snd p)))
                         (enumerate 0 (slice xs 0 5))) of
                 Inl e \<Rightarrow> Inl e
               | Inr items \<Rightarrow>
                   Inr (Element ''div'' None
                     [Element ''div'' (Some ''font-medium text-sm mb-2'')
                        [Num (length xs), Text '' items:''],
                      Element ''div'' (Some ''space-y-2 max-h-48 overflow-y-auto'')
                        (items @
                          (if length xs > 5 then [more_items_marker (length xs - 5)] else []))])))
     else if typeof v = ''object'' then
       (case Object_entries v of
          Inl e \<Rightarrow> Inl e
        | Inr entries \<Rightarrow>
            if length entries = 0 then Inr empty_object_marker
            else
              (case sequence
                      (map (\<lambda>p. in_box (entry_box (fst p)) (SmartValueRenderer ns (snd p)))
                         (slice entries 0 3)) of
                 Inl e \<Rightarrow> Inl e
               | Inr props \<Rightarrow>
                   Inr (Element ''div'' (Some ''space-y-2'')
                     (props @
                       (if length entries > 3 then [more_properties_marker (length entries - 3)]
                        else [])))))
     else
       (case String_js ns v of
          Inl e \<Rightarrow> Inl e
        | Inr str \<Rightarrow> Inr (Element ''span'' None [Text str])))"
  by pat_completeness auto
termination
proof (relation "measure (\<lambda>(ns, v). size v)")
  show "wf (measure (\<lambda>(ns, v). size v))"
    by simp
next
  fix ns :: "rat \<Rightarrow> string" and v xs p
  assume arr: "as_array v = Inr xs" and p: "p \<in> set (enumerate 0 (slice xs 0 5))"
  from arr have v: "v = JArray xs"
    by (cases v) auto
  from p have "fst p < length xs" and "snd p = xs ! fst p"
    by (auto simp: slice_def in_set_enumerate_eq)
  then show "((ns, snd p), (ns, v)) \<in> measure (\<lambda>(ns, v). size v)"
    using size_nth_less [of "fst p" xs] v by simp
next
  fix ns :: "rat \<Rightarrow> string" and v entries p
  assume obj: "typeof v = ''object''" and arr: "\<not> Array_isArray v"
    and ent: "Object_entries v = Inr entries" and p: "p \<in> set (slice entries 0 3)"
  from ent obj arr have v: "v = JObject entries"
    by (rule Object_entries_object)
  from p show "((ns, snd p), (ns, v)) \<in> measure (\<lambda>(ns, v). size v)"
    using size_entry_less [of p 3 entries] v by (simp add: slice_def)
qed

declare SmartValueRenderer.simps [simp del]

section \<open>The asset viewer\<close>

text \<open>
  Emoji of the fixed captions are written as their UTF-8 bytes.
\<close>

definition clipboard_emoji :: string where
  "clipboard_emoji = [CHR 0xF0, CHR 0x9F, CHR 0x93, CHR 0x8B]"

definition bulb_emoji :: string where
  "bulb_emoji = [CHR 0xF0, CHR 0x9F, CHR 0x92, CHR 0xA1]"

record ActionableAsset =
  asset_name :: string
  asset_data :: jsvalue

text \<open>The state \<open>activeView\<close>, one of \<open>'visual' | 'data' | 'usage'\<close>; it starts at \<open>'visual'\<close>.\<close>

datatype view = Visual | Data | Usage

record asset_type_info =
  info_type :: string
  info_icon :: string
  info_title :: string
  info_description :: string

definition getAssetTypeInfo :: "string \<Rightarrow> jsvalue \<Rightarrow> asset_type_info" where
  "getAssetTypeInfo assetName assetData =
     (let cleanName = capitalize_words (replace_all_char CHR ''_'' CHR '' '' assetName)
      in \<lparr>info_type = ''universal'', info_icon = clipboard_emoji, info_title = cleanName,
          info_description = ''Business-ready deliverable''\<rparr>)"

definition no_data_placeholder :: node where
  "no_data_placeholder =
     Element ''div'' (Some ''text-gray-500'') [Text ''No data available for this asset'']"

text \<open>The body of the callback of \<open>entries.map(([key, value]) => ...)\<close>.\<close>

definition field_box :: "string \<Rightarrow> node \<Rightarrow> node" where
  "field_box key rendered =
     Element ''div'' (Some ''bg-white rounded-lg p-4 border border-blue-100'')
       [Element ''div'' (Some ''font-medium text-blue-700 mb-2'') [Text (humanize_key key)],
        Element ''div'' (Some ''text-gray-700'') [rendered]]"

definition renderAssetContent :: "(rat \<Rightarrow> string) \<Rightarrow> ActionableAsset \<Rightarrow> error + node" where
  "renderAssetContent ns asset =
     (let data = asset_data asset in
      if \<not> truthy data \<or> typeof data \<noteq> ''object'' then Inr no_data_placeholder
      else
        (case Object_entries data of
           Inl e \<Rightarrow> Inl e
         | Inr entries \<Rightarrow>
             (case sequence
                     (map (\<lambda>p. in_box (field_box (fst p)) (SmartValueRenderer ns (snd p)))
                        entries) of
                Inl e \<Rightarrow> Inl e
              | Inr rows \<Rightarrow>
                  Inr (Element ''div'' (Some ''space-y-4'')
                    [Element ''div'' (Some ''bg-blue-50 rounded-lg p-4 border border-blue-200'')
                       [Element ''h4'' (Some ''font-semibold text-blue-800 mb-3'')
                          [Text (clipboard_emoji @ '' Deliverable Content'')],
                        Element ''div'' (Some ''space-y-3 max-h-96 overflow-y-auto'') rows]]))))"

definition instructions :: "string list" where
  "instructions =
     [''Review the deliverable content in the Visual View tab'',
      ''Adapt the content to fit your specific business context'',
      ''Implement the recommendations systematically'',
      ''Download the asset for integration with your existing tools'',
      ''Monitor results and request refinements if needed'']"

definition renderUsageInstructions :: node where
  "renderUsageInstructions =
     Element ''div'' (Some ''bg-blue-50 rounded-lg p-4 border border-blue-200'')
       [Element ''h4'' (Some ''font-semibold text-blue-800 mb-3'')
          [Text (bulb_emoji @ '' How to Use This Deliverable'')],
        Element ''ol'' (Some ''space-y-2'')
          (map (\<lambda>p. Element ''li'' (Some ''flex items-start'')
                  [Element ''div''
                     (Some ''bg-blue-500 text-white rounded-full w-6 h-6 flex items-center justify-center text-sm font-bold mr-3 mt-0.5 flex-shrink-0'')
                     [Num (fst p + 1)],
                   Element ''span'' (Some ''text-blue-900'') [Text (snd p)]])
             (enumerate 0 instructions))]"

subsection \<open>JSON.stringify\<close>

definition hex_digit :: "nat \<Rightarrow> char" where
  "hex_digit d = ''0123456789abcdef'' ! d"

text \<open>
  The escape of one character inside a JSON string: the quote, the backslash, the five
  short control escapes, \<open>\u00XX\<close> for the other control characters.
\<close>

definition quote_char :: "char \<Rightarrow> string" where
  "quote_char c =
     (if c = CHR 0x22 then [CHR 0x5C, CHR 0x22]
      else if c = CHR 0x5C then [CHR 0x5C, CHR 0x5C]
      else if c = CHR 0x08 then [CHR 0x5C, CHR ''b'']
      else if c = CHR 0x09 then [CHR 0x5C, CHR ''t'']
      else if c = CHR 0x0A then [CHR 0x5C, CHR ''n'']
      else if c = CHR 0x0C then [CHR 0x5C, CHR ''f'']
      else if c = CHR 0x0D then [CHR 0x5C, CHR ''r'']
      else if (of_char c :: nat) < 32 then
        [CHR 0x5C, CHR ''u'', CHR ''0'', CHR ''0'',
         hex_digit ((of_char c :: nat) div 16), hex_digit ((of_char c :: nat) mod 16)]
      else [c])"

definition QuoteJSONString :: "string \<Rightarrow> string" where
  "QuoteJSONString s = [CHR 0x22] @ concat (map quote_char s) @ [CHR 0x22]"

text \<open>
  The text of an array or object from the texts of its parts: \<open>stepback\<close> is the
  indentation of the enclosing level and \<open>gap\<close> the indentation unit.
\<close>

definition wrap_parts :: "string \<Rightarrow> string \<Rightarrow> string \<Rightarrow> string \<Rightarrow> string list \<Rightarrow> string" where
  "wrap_parts opening closing gap stepback parts =
     (if parts = [] then opening @ closing
      else if gap = [] then opening @ join '','' parts @ closing
      else opening @ [CHR 0x0A] @ stepback @ gap
           @ join ('','' @ [CHR 0x0A] @ stepback @ gap) parts
           @ [CHR 0x0A] @ stepback @ closing)"

definition member_text :: "string \<Rightarrow> string \<Rightarrow> string \<Rightarrow> string" where
  "member_text gap key str = QuoteJSONString key @ '':'' @ (if gap = [] then [] else '' '') @ str"

text \<open>
  \<open>SerializeJSONProperty\<close>: \<open>None\<close> is the result \<open>undefined\<close>, which an object leaves
  out and an array prints as \<open>null\<close>. A bigint throws a \<open>TypeError\<close>; a non-finite
  number prints as \<open>null\<close>.
\<close>

fun JSON_serialize :: "(rat \<Rightarrow> string) \<Rightarrow> string \<Rightarrow> string \<Rightarrow> jsvalue \<Rightarrow> error + string option" where
  "JSON_serialize ns gap indent JUndefined = Inr None"
| "JSON_serialize ns gap indent JNull = Inr (Some ''null'')"
| "JSON_serialize ns gap indent (JBoolean b) = Inr (Some (if b then ''true'' else ''false''))"
| "JSON_serialize ns gap indent (JNumber n) =
     Inr (Some (case n of Finite q \<Rightarrow> ns q | _ \<Rightarrow> ''null''))"
| "JSON_serialize ns gap indent (JString s) = Inr (Some (QuoteJSONString s))"
| "JSON_serialize ns gap indent (JBigInt i) = Inl TypeError"
| "JSON_serialize ns gap indent (JSymbol d) = Inr None"
| "JSON_serialize ns gap indent (JFunction src) = Inr None"
| "JSON_serialize ns gap indent (JArray xs) =
     (case sequence (map (JSON_serialize ns gap (indent @ gap)) xs) of
        Inl e \<Rightarrow> Inl e
      | Inr strs \<Rightarrow>
          Inr (Some (wrap_parts ''['' '']'' gap indent
            (map (\<lambda>str. case str of None \<Rightarrow> ''null'' | Some t \<Rightarrow> t) strs))))"
| "JSON_serialize ns gap indent (JObject es) =
     (case sequence (map (\<lambda>p. JSON_serialize ns gap (indent @ gap) (snd p)) es) of
        Inl e \<Rightarrow> Inl e
      | Inr strs \<Rightarrow>
          Inr (Some (wrap_parts ''{'' ''}'' gap indent
            (concat (map (\<lambda>q. case snd q of None \<Rightarrow> [] | Some t \<Rightarrow> [member_text gap (fst (fst q)) t])
               (zip es strs))))))"

text \<open>\<open>JSON.stringify(value, null, space)\<close> for a numeric \<open>space\<close>.\<close>

definition JSON_stringify :: "(rat \<Rightarrow> string) \<Rightarrow> jsvalue \<Rightarrow> nat \<Rightarrow> error + string option" where
  "JSON_stringify ns v space = JSON_serialize ns (replicate (min 10 space) CHR '' '') [] v"

text \<open>
  The content area of the viewer: of the three conditional children exactly the one
  of the active view is rendered. An \<open>undefined\<close> result of \<open>JSON.stringify\<close> is an
  empty child.
\<close>

definition raw_data_view :: "string option \<Rightarrow> node" where
  "raw_data_view txt =
     Element ''div'' (Some ''bg-gray-900 rounded-lg p-4 overflow-auto'')
       [Element ''h3'' (Some ''text-white font-medium mb-3'') [Text ''Raw Asset Data''],
        Element ''pre'' (Some ''text-green-400 text-sm overflow-auto max-h-96'')
          (case txt of None \<Rightarrow> [] | Some t \<Rightarrow> [Text t])]"

definition viewer_content :: "(rat \<Rightarrow> string) \<Rightarrow> ActionableAsset \<Rightarrow> view \<Rightarrow> error + node list" where
  "viewer_content ns asset activeView =
     (case activeView of
        Visual \<Rightarrow>
          (case renderAssetContent ns asset of Inl e \<Rightarrow> Inl e | Inr content \<Rightarrow> Inr [content])
      | Usage \<Rightarrow> Inr [renderUsageInstructions]
      | Data \<Rightarrow>
          (case JSON_stringify ns (asset_data asset) 2 of
             Inl e \<Rightarrow> Inl e
           | Inr txt \<Rightarrow> Inr [raw_data_view txt]))"

section \<open>The team section\<close>

text \<open>
  \<open>formatPersonalityTraits\<close>; its argument has type \<open>string[] | null | undefined\<close>, and
  \<open>None\<close> stands for the two absent values.
\<close>

definition formatPersonalityTraits :: "string list option \<Rightarrow> string" where
  "formatPersonalityTraits traits =
     (case traits of
        None \<Rightarrow> ''Non specificati''
      | Some ts \<Rightarrow>
          if length ts = 0 then ''Non specificati''
          else join '', ''
                 (map (\<lambda>trait. replace_all_char CHR ''-'' CHR '' ''
                                 (replace_all_char CHR ''_'' CHR '' '' trait)) ts))"

text \<open>
  The label of the specification for free text: underscores and hyphens are spaces and
  every word is capitalized.
\<close>

definition spec_label_humanized :: "string \<Rightarrow> string" where
  "spec_label_humanized label =
     spec_capitalized (map (\<lambda>c. if c = CHR ''_'' \<or> c = CHR ''-'' then CHR '' '' else c) label)"

section \<open>The knowledge panel\<close>

subsection \<open>Formatting helpers\<close>

text \<open>
  A \<open>Date\<close> object either holds a time value (milliseconds since the epoch) or is the
  invalid date, whose time value is not a number. \<open>new Date(dateString)\<close> parses its
  argument with \<open>Date.parse\<close>, here the parameter \<open>parse\<close>, with \<open>None\<close> for a string
  that does not parse.
\<close>

datatype jsdate = InvalidDate | ValidDate int

definition new_Date :: "(string \<Rightarrow> int option) \<Rightarrow> string \<Rightarrow> jsdate" where
  "new_Date parse dateString =
     (case parse dateString of None \<Rightarrow> InvalidDate | Some t \<Rightarrow> ValidDate t)"

text \<open>
  \<open>Date.prototype.toLocaleDateString(locales, options)\<close>: on the invalid date the
  result is the string \<open>Invalid Date\<close> and nothing is thrown; on a valid date the
  formatter of the locale and options, here the parameter \<open>fmt\<close>, produces the label or
  throws.
\<close>

definition toLocaleDateString :: "(int \<Rightarrow> error + string) \<Rightarrow> jsdate \<Rightarrow> error + string" where
  "toLocaleDateString fmt d = (case d of InvalidDate \<Rightarrow> Inr ''Invalid Date'' | ValidDate t \<Rightarrow> fmt t)"

text \<open>\<open>formatDate\<close>: the \<open>try\<close> block returns the label, the \<open>catch\<close> block \<open>'Unknown'\<close>.\<close>

definition formatDate :: "(string \<Rightarrow> int option) \<Rightarrow> (int \<Rightarrow> error + string) \<Rightarrow> string \<Rightarrow> string" where
  "formatDate parse fmt dateString =
     (case toLocaleDateString fmt (new_Date parse dateString) of
        Inr label \<Rightarrow> label
      | Inl e \<Rightarrow> ''Unknown'')"

text \<open>The comparison \<open>>=\<close> on numbers: false whenever an operand is not a number.\<close>

fun js_ge :: "jsnumber \<Rightarrow> jsnumber \<Rightarrow> bool" where
  "js_ge NaN y = False"
| "js_ge x NaN = False"
| "js_ge PosInfinity y = True"
| "js_ge x NegInfinity = True"
| "js_ge NegInfinity y = False"
| "js_ge x PosInfinity = False"
| "js_ge (Finite a) (Finite b) = (b \<le> a)"

text \<open>
  The number literals \<open>0.8\<close> and \<open>0.6\<close> of the source denote doubles, not the
  decimals written: the double nearest to the decimal, with a significand of 53 bits.
  Between 1/2 and 1 the doubles are the multiples of \<open>2^-53\<close>, so \<open>0.8\<close> is
  \<open>7205759403792794 / 2^53\<close>, slightly above 8/10, and \<open>0.6\<close> is
  \<open>5404319552844595 / 2^53\<close>, slightly below 6/10.
\<close>

definition literal_0_8 :: rat where
  "literal_0_8 = 3602879701896397 / 4503599627370496"

definition literal_0_6 :: rat where
  "literal_0_6 = 5404319552844595 / 9007199254740992"

text \<open>
  \<open>getConfidenceColor\<close> of \<open>KnowledgeInsightsArtifact\<close> and the copy of the same name
  inside \<open>InsightSection\<close>.
\<close>

definition getConfidenceColor :: "jsnumber \<Rightarrow> string" where
  "getConfidenceColor confidence =
     (if js_ge confidence (Finite literal_0_8) then ''text-green-600 bg-green-100''
      else if js_ge confidence (Finite literal_0_6) then ''text-yellow-600 bg-yellow-100''
      else ''text-red-600 bg-red-100'')"

definition InsightSection_getConfidenceColor :: "jsnumber \<Rightarrow> string" where
  "InsightSection_getConfidenceColor confidence =
     (if js_ge confidence (Finite literal_0_8) then ''text-green-600 bg-green-100''
      else if js_ge confidence (Finite literal_0_6) then ''text-yellow-600 bg-yellow-100''
      else ''text-red-600 bg-red-100'')"

text \<open>The three tiers of the specification, low below medium below high, by color pairing.\<close>

definition tier_rank :: "string \<Rightarrow> nat" where
  "tier_rank color =
     (if color = ''text-green-600 bg-green-100'' then 2
      else if color = ''text-yellow-600 bg-yellow-100'' then 1
      else 0)"

subsection \<open>Sections and management mode\<close>

text \<open>
  The two pieces of state of \<open>KnowledgeInsightsArtifact\<close>: \<open>activeSection\<close>, initially
  \<open>'insights'\<close>, and \<open>managementMode\<close>, initially \<open>false\<close>.
\<close>

datatype panel_section = Insights | Practices | Learnings | Summary | Manage

record panel_state =
  activeSection :: panel_section
  managementMode :: bool

definition initial_panel_state :: panel_state where
  "initial_panel_state = \<lparr>activeSection = Insights, managementMode = False\<rparr>"

text \<open>The click handler of the management button: \<open>setManagementMode(!managementMode)\<close>.\<close>

definition toggle_management :: "panel_state \<Rightarrow> panel_state" where
  "toggle_management st = st\<lparr>managementMode := \<not> managementMode st\<rparr>"

text \<open>The click handler of a tab: \<open>setActiveSection(s)\<close>.\<close>

definition setActiveSection :: "panel_section \<Rightarrow> panel_state \<Rightarrow> panel_state" where
  "setActiveSection s st = st\<lparr>activeSection := s\<rparr>"

record knowledgeData =
  insights :: "jsvalue list option"
  bestPractices :: "jsvalue list option"
  learnings :: "jsvalue list option"
  summary :: "jsvalue option"

record panel_props =
  knowledge :: knowledgeData
  workspaceId :: string
  currentUserId :: string

definition star_emoji :: string where
  "star_emoji = [CHR 0xE2, CHR 0xAD, CHR 0x90]"

definition books_emoji :: string where
  "books_emoji = [CHR 0xF0, CHR 0x9F, CHR 0x93, CHR 0x9A]"

definition chart_emoji :: string where
  "chart_emoji = [CHR 0xF0, CHR 0x9F, CHR 0x93, CHR 0x8A]"

text \<open>
  The child components of the panel with their props, left unexpanded:
  \<open>KnowledgeInsightManager\<close> (workspace and user), \<open>SectionTab\<close> (active, label, count,
  icon), \<open>InsightSection\<close> (title, items) and \<open>SummaryView\<close> (summary).
\<close>

datatype component =
    KnowledgeInsightManager string string
  | SectionTab bool string "nat option" string
  | InsightSection string "jsvalue list"
  | SummaryView "jsvalue option"

text \<open>\<open>items?.length || 0\<close> and \<open>items || []\<close>.\<close>

definition length_or_0 :: "jsvalue list option \<Rightarrow> nat" where
  "length_or_0 items = (case items of None \<Rightarrow> 0 | Some xs \<Rightarrow> length xs)"

definition items_or_empty :: "jsvalue list option \<Rightarrow> jsvalue list" where
  "items_or_empty items = (case items of None \<Rightarrow> [] | Some xs \<Rightarrow> xs)"

text \<open>
  The region of the panel below the header, \<open>managementMode ? (...) : (...)\<close>: the child
  components it renders, in document order.
\<close>

definition main_region :: "panel_props \<Rightarrow> panel_state \<Rightarrow> component list" where
  "main_region props st =
     (if managementMode st then
        [KnowledgeInsightManager (workspaceId props) (currentUserId props)]
      else
        [SectionTab (activeSection st = Insights) ''Insights''
           (Some (length_or_0 (insights (knowledge props)))) bulb_emoji,
         SectionTab (activeSection st = Practices) ''Best Practices''
           (Some (length_or_0 (bestPractices (knowledge props)))) star_emoji,
         SectionTab (activeSection st = Learnings) ''Learnings''
           (Some (length_or_0 (learnings (knowledge props)))) books_emoji,
         SectionTab (activeSection st = Summary) ''Summary'' None chart_emoji]
        @ (if activeSection st = Insights then
             [InsightSection (bulb_emoji @ '' Insights & Discoveries'')
                (items_or_empty (insights (knowledge props)))]
           else [])
        @ (if activeSection st = Practices then
             [InsightSection (star_emoji @ '' Best Practices'')
                (items_or_empty (bestPractices (knowledge props)))]
           else [])
        @ (if activeSection st = Learnings then
             [InsightSection (books_emoji @ '' Learnings & Constraints'')
                (items_or_empty (learnings (knowledge props)))]
           else [])
        @ (if activeSection st = Summary then [SummaryView (summary (knowledge props))] else []))"

section \<open>Properties of the renderer\<close>

subsection \<open>Auxiliary facts\<close>

lemma sequence_map_Inr: "sequence (map Inr xs) = Inr xs"
  by (induction xs) auto

lemma all_Inr_map:
  "(\<And>x. x \<in> set xs \<Longrightarrow> \<exists>y. f x = Inr y) \<Longrightarrow> \<exists>ys. map f xs = map Inr ys"
proof (induction xs)
  case Nil
  show ?case by simp
next
  case (Cons x xs)
  then obtain ys where ys: "map f xs = map Inr ys" by auto
  from Cons.prems obtain y where "f x = Inr y" by auto
  with ys have "map f (x # xs) = map Inr (y # ys)" by simp
  then show ?case by blast
qed

lemma in_box_Inr: "in_box box (Inr r) = Inr (box r)"
  by (simp add: in_box_def)

lemma slice_from_0: "slice xs 0 n = take n xs"
  by (simp add: slice_def)

lemma substring_from_0: "substring s 0 n = take n s"
  by (simp add: substring_def)

lemma SmartValueRenderer_JArray:
  "SmartValueRenderer ns (JArray xs) =
     (if xs = [] then Inr empty_list_marker
      else
        (case sequence
                (map (\<lambda>p. in_box (item_box (fst p)) (SmartValueRenderer ns (snd p)))
                   (enumerate 0 (take 5 xs))) of
           Inl e \<Rightarrow> Inl e
         | Inr items \<Rightarrow>
             Inr (Element ''div'' None
               [Element ''div'' (Some ''font-medium text-sm mb-2'')
                  [Num (length xs), Text '' items:''],
                Element ''div'' (Some ''space-y-2 max-h-48 overflow-y-auto'')
                  (items @
                    (if length xs > 5 then [more_items_marker (length xs - 5)] else []))])))"
  by (simp add: SmartValueRenderer.simps [of ns "JArray xs"] slice_from_0)

lemma SmartValueRenderer_JObject:
  "SmartValueRenderer ns (JObject es) =
     (if es = [] then Inr empty_object_marker
      else
        (case sequence
                (map (\<lambda>p. in_box (entry_box (fst p)) (SmartValueRenderer ns (snd p)))
                   (take 3 es)) of
           Inl e \<Rightarrow> Inl e
         | Inr props \<Rightarrow>
             Inr (Element ''div'' (Some ''space-y-2'')
               (props @
                 (if length es > 3 then [more_properties_marker (length es - 3)] else [])))))"
  by (simp add: SmartValueRenderer.simps [of ns "JObject es"] slice_from_0)

lemma SmartValueRenderer_returns: "\<exists>r. SmartValueRenderer ns v = Inr r"
proof (induction ns v rule: SmartValueRenderer.induct)
  case (1 ns v)
  show ?case
  proof (cases v)
    case (JArray xs)
    have "\<exists>y. SmartValueRenderer ns (snd p) = Inr y"
      if "xs \<noteq> []" "p \<in> set (enumerate 0 (take 5 xs))" for p
      using "1.IH"(1) [of xs p] that JArray by (simp add: slice_from_0)
    then have "\<exists>ys. map (\<lambda>p. in_box (item_box (fst p)) (SmartValueRenderer ns (snd p)))
          (enumerate 0 (take 5 xs)) = map Inr ys" if "xs \<noteq> []"
      using that by (intro all_Inr_map) (fastforce simp: in_box_Inr)
    then show ?thesis
      unfolding JArray SmartValueRenderer_JArray by (auto simp: sequence_map_Inr)
  next
    case (JObject es)
    have "\<exists>y. SmartValueRenderer ns (snd p) = Inr y"
      if "es \<noteq> []" "p \<in> set (take 3 es)" for p
      using "1.IH"(2) [of es p] that JObject by (simp add: slice_from_0)
    then have "\<exists>ys. map (\<lambda>p. in_box (entry_box (fst p)) (SmartValueRenderer ns (snd p)))
          (take 3 es) = map Inr ys" if "es \<noteq> []"
      using that by (intro all_Inr_map) (fastforce simp: in_box_Inr)
    then show ?thesis
      unfolding JObject SmartValueRenderer_JObject by (auto simp: sequence_map_Inr)
  qed (simp_all add: SmartValueRenderer.simps String_js_def)
qed

lemma boxes_enumerate:
  "map g xs = map Inr ys \<Longrightarrow>
   map (\<lambda>p. in_box (box (fst p)) (g (snd p))) (enumerate n xs) =
     map Inr (map (\<lambda>p. box (fst p) (snd p)) (enumerate n ys))"
proof (induction xs arbitrary: ys n)
  case Nil
  then show ?case by simp
next
  case (Cons x xs)
  then obtain y ys' where ys: "ys = y # ys'" "g x = Inr y" "map g xs = map Inr ys'"
    by (cases ys) auto
  with Cons.IH [of ys' "Suc n"] show ?case
    by (simp add: in_box_Inr)
qed

lemma boxes_zip:
  "map g xs = map Inr ys \<Longrightarrow>
   map (\<lambda>p. in_box (box (fst p)) (g p)) xs =
     map Inr (map (\<lambda>q. box (fst (fst q)) (snd q)) (zip xs ys))"
proof (induction xs arbitrary: ys)
  case Nil
  then show ?case by simp
next
  case (Cons x xs)
  then obtain y ys' where ys: "ys = y # ys'" "g x = Inr y" "map g xs = map Inr ys'"
    by (cases ys) auto
  with Cons.IH [of ys'] show ?case
    by (simp add: in_box_Inr)
qed

lemma renders_prefix: "\<exists>rs. map (SmartValueRenderer ns) xs = map Inr rs"
  using all_Inr_map [of xs "SmartValueRenderer ns"] SmartValueRenderer_returns by blast

lemma capitalize_from_nth:
  "capitalize_from prev s =
     map (\<lambda>i. if is_word_char (s ! i) \<and> (if i = 0 then \<not> prev else \<not> is_word_char (s ! (i - 1)))
               then toUpperCase_char (s ! i) else s ! i) [0..<length s]"
proof (induction s arbitrary: prev)
  case Nil
  show ?case by simp
next
  case (Cons c cs)
  have upt: "[0..<length (c # cs)] = 0 # map Suc [0..<length cs]"
    using upt_conv_Cons [of 0 "Suc (length cs)"] map_Suc_upt [of 0 "length cs"] by simp
  show ?case
    unfolding upt by (auto simp: Cons.IH [of "is_word_char c"] nth_Cons')
qed

lemma capitalize_words_spec: "capitalize_words s = spec_capitalized s"
  unfolding capitalize_words_def spec_capitalized_def word_start_def capitalize_from_nth [of False s]
  by (rule map_cong) auto

lemma humanize_key_spec: "humanize_key key = spec_humanized key"
  by (simp add: humanize_key_def spec_humanized_def replace_all_char_def capitalize_words_spec)

lemmas label_eval =
  humanize_key_def capitalize_words_def replace_all_char_def is_word_char_def
  toUpperCase_char_def lower_letters_def upper_letters_def digits_def

lemmas render_eval =
  SmartValueRenderer.simps slice_def substring_def in_box_def item_box_def entry_box_def
  more_items_marker_def more_properties_marker_def null_marker_def empty_list_marker_def
  empty_object_marker_def enumerate_eq_zip String_js_def

subsection \<open>Every value renders\<close>

text \<open>
  Claim C1. For every value, of whatever kind, \<open>SmartValueRenderer\<close> returns a rendering
  and throws nothing: the guards in front of each member access and each conversion
  are sufficient. The
  absent values render the null marker, a number or boolean renders its literal string
  form, and a value that no earlier branch matches (a bigint, a symbol, a function)
  falls through to its string conversion.
\<close>

theorem SmartValueRenderer_never_throws:
  "(\<exists>r. SmartValueRenderer ns v = Inr r)
   \<and> SmartValueRenderer ns JNull = Inr null_marker
   \<and> SmartValueRenderer ns JUndefined = Inr null_marker
   \<and> SmartValueRenderer ns (JNumber n) =
       Inr (Element ''span'' (Some ''font-medium'') [Text (Number_toString ns n)])
   \<and> SmartValueRenderer ns (JBoolean b) =
       Inr (Element ''span'' (Some ''font-medium'') [Text (if b then ''true'' else ''false'')])
   \<and> String_js ns (JBigInt i) = Inr (String_int i)
   \<and> SmartValueRenderer ns (JBigInt i) = Inr (Element ''span'' None [Text (String_int i)])
   \<and> String_js ns (JSymbol d) = Inr (''Symbol('' @ d @ '')'')
   \<and> SmartValueRenderer ns (JSymbol d) = Inr (Element ''span'' None [Text (''Symbol('' @ d @ '')'')])
   \<and> String_js ns (JFunction src) = Inr src
   \<and> SmartValueRenderer ns (JFunction src) = Inr (Element ''span'' None [Text src])"
  using SmartValueRenderer_returns [of ns v] by (simp add: SmartValueRenderer.simps String_js_def)

text \<open>A nested value, rendered in full.\<close>

theorem SmartValueRenderer_never_throws_witness:
  "SmartValueRenderer (\<lambda>q. ''0'') (JArray [JNull, JObject [(''a_b'', JBoolean True)], JSymbol ''x'']) =
     Inr (Element ''div'' None
       [Element ''div'' (Some ''font-medium text-sm mb-2'') [Num 3, Text '' items:''],
        Element ''div'' (Some ''space-y-2 max-h-48 overflow-y-auto'')
          [Element ''div'' (Some ''bg-gray-50 rounded p-2 text-sm'')
             [Element ''div'' (Some ''text-xs text-gray-500 mb-1'') [Text ''Item '', Num 1],
              Element ''span'' (Some ''text-gray-400 italic'') [Text ''null'']],
           Element ''div'' (Some ''bg-gray-50 rounded p-2 text-sm'')
             [Element ''div'' (Some ''text-xs text-gray-500 mb-1'') [Text ''Item '', Num 2],
              Element ''div'' (Some ''space-y-2'')
                [Element ''div'' (Some ''bg-gray-50 rounded p-2'')
                   [Element ''div'' (Some ''text-xs font-medium text-gray-600 mb-1'') [Text ''A B''],
                    Element ''div'' (Some ''text-sm'')
                      [Element ''span'' (Some ''font-medium'') [Text ''true'']]]]],
           Element ''div'' (Some ''bg-gray-50 rounded p-2 text-sm'')
             [Element ''div'' (Some ''text-xs text-gray-500 mb-1'') [Text ''Item '', Num 3],
              Element ''span'' None [Text ''Symbol(x)'']]]])"
  using SmartValueRenderer_never_throws [where ns = "\<lambda>q. ''0''" and n = NaN and b = True and i = 0
      and d = "''x''" and src = "''f''"
      and v = "JArray [JNull, JObject [(''a_b'', JBoolean True)], JSymbol ''x'']"]
  by (simp add: render_eval label_eval)

subsection \<open>Strings\<close>

text \<open>
  Claim C2. A string of at most 200 characters is rendered verbatim. A longer string
  is rendered as its first 200 characters followed by the ellipsis marker \<open>...\<close> and by
  the total number of its characters.
\<close>

theorem SmartValueRenderer_string:
  "SmartValueRenderer ns (JString s) =
     (if length s \<le> 200 then Inr (Element ''span'' None [Text s])
      else
        Inr (Element ''div'' None
          [Element ''div'' (Some ''mb-2'') [Text (take 200 s), Text ''...''],
           Element ''div'' (Some ''text-xs text-gray-500'')
             [Text ''('', Num (length s), Text '' characters total)'']]))"
  by (simp add: SmartValueRenderer.simps [of ns "JString s"] substring_from_0)

text \<open>A string of 201 characters.\<close>

theorem SmartValueRenderer_string_witness:
  "SmartValueRenderer (\<lambda>q. ''0'') (JString (replicate 201 CHR ''x'')) =
     Inr (Element ''div'' None
          [Element ''div'' (Some ''mb-2'') [Text (replicate 200 CHR ''x''), Text ''...''],
           Element ''div'' (Some ''text-xs text-gray-500'')
             [Text ''('', Num 201, Text '' characters total)'']])"
  using SmartValueRenderer_string [of "\<lambda>q. ''0''" "replicate 201 CHR ''x''"] by simp

subsection \<open>Lists\<close>

text \<open>
  Claim C3. The empty list renders the empty-list marker. A non-empty list renders its
  item count, then its first five items (all of them when there are at most five) in
  their original order, each under the label \<open>Item i\<close> with \<open>i\<close> counted from 1, and,
  when there are more than five, a trailing marker with the number of remaining items.
  The items after the fifth are not rendered: replacing them by \<open>null\<close> leaves the
  output unchanged.
\<close>

theorem SmartValueRenderer_list:
  "\<exists>items. map (SmartValueRenderer ns) (take 5 L) = map Inr items
     \<and> SmartValueRenderer ns (JArray L) =
         (if L = [] then Inr (Element ''span'' (Some ''text-gray-400 italic'') [Text ''Empty list''])
          else
            Inr (Element ''div'' None
              [Element ''div'' (Some ''font-medium text-sm mb-2'')
                 [Num (length L), Text '' items:''],
               Element ''div'' (Some ''space-y-2 max-h-48 overflow-y-auto'')
                 (map (\<lambda>p. Element ''div'' (Some ''bg-gray-50 rounded p-2 text-sm'')
                              [Element ''div'' (Some ''text-xs text-gray-500 mb-1'')
                                 [Text ''Item '', Num (fst p + 1)],
                               snd p])
                    (enumerate 0 items)
                  @ (if length L > 5
                     then [Element ''div'' (Some ''text-xs text-gray-500 text-center'')
                             [Text ''+ '', Num (length L - 5), Text '' more items'']]
                     else []))]))
     \<and> SmartValueRenderer ns (JArray (take 5 L @ replicate (length L - 5) JNull)) =
         SmartValueRenderer ns (JArray L)"
proof -
  obtain items where items: "map (SmartValueRenderer ns) (take 5 L) = map Inr items"
    using renders_prefix by blast
  have boxes: "map (\<lambda>p. in_box (item_box (fst p)) (SmartValueRenderer ns (snd p)))
        (enumerate 0 (take 5 L)) =
      map Inr (map (\<lambda>p. item_box (fst p) (snd p)) (enumerate 0 items))"
    using items by (rule boxes_enumerate)
  have shape: "SmartValueRenderer ns (JArray L) =
         (if L = [] then Inr (Element ''span'' (Some ''text-gray-400 italic'') [Text ''Empty list''])
          else
            Inr (Element ''div'' None
              [Element ''div'' (Some ''font-medium text-sm mb-2'')
                 [Num (length L), Text '' items:''],
               Element ''div'' (Some ''space-y-2 max-h-48 overflow-y-auto'')
                 (map (\<lambda>p. Element ''div'' (Some ''bg-gray-50 rounded p-2 text-sm'')
                              [Element ''div'' (Some ''text-xs text-gray-500 mb-1'')
                                 [Text ''Item '', Num (fst p + 1)],
                               snd p])
                    (enumerate 0 items)
                  @ (if length L > 5
                     then [Element ''div'' (Some ''text-xs text-gray-500 text-center'')
                             [Text ''+ '', Num (length L - 5), Text '' more items'']]
                     else []))]))"
    unfolding SmartValueRenderer_JArray boxes sequence_map_Inr
    by (simp add: empty_list_marker_def item_box_def more_items_marker_def)
  let ?L' = "take 5 L @ replicate (length L - 5) JNull"
  have len: "length ?L' = length L" by simp
  have pre: "take 5 ?L' = take 5 L" by simp
  have nil: "?L' = [] \<longleftrightarrow> L = []" by auto
  have same: "SmartValueRenderer ns (JArray ?L') = SmartValueRenderer ns (JArray L)"
    unfolding SmartValueRenderer_JArray [of ns ?L'] SmartValueRenderer_JArray [of ns L] len pre nil ..
  from items shape same show ?thesis by blast
qed

text \<open>A list of six items: five are rendered, one is counted.\<close>

theorem SmartValueRenderer_list_witness:
  "SmartValueRenderer (\<lambda>q. ''0'')
      (JArray [JString ''a'', JString ''b'', JString ''c'', JString ''d'', JString ''e'', JString ''f'']) =
     Inr (Element ''div'' None
       [Element ''div'' (Some ''font-medium text-sm mb-2'') [Num 6, Text '' items:''],
        Element ''div'' (Some ''space-y-2 max-h-48 overflow-y-auto'')
          [Element ''div'' (Some ''bg-gray-50 rounded p-2 text-sm'')
             [Element ''div'' (Some ''text-xs text-gray-500 mb-1'') [Text ''Item '', Num 1],
              Element ''span'' None [Text ''a'']],
           Element ''div'' (Some ''bg-gray-50 rounded p-2 text-sm'')
             [Element ''div'' (Some ''text-xs text-gray-500 mb-1'') [Text ''Item '', Num 2],
              Element ''span'' None [Text ''b'']],
           Element ''div'' (Some ''bg-gray-50 rounded p-2 text-sm'')
             [Element ''div'' (Some ''text-xs text-gray-500 mb-1'') [Text ''Item '', Num 3],
              Element ''span'' None [Text ''c'']],
           Element ''div'' (Some ''bg-gray-50 rounded p-2 text-sm'')
             [Element ''div'' (Some ''text-xs text-gray-500 mb-1'') [Text ''Item '', Num 4],
              Element ''span'' None [Text ''d'']],
           Element ''div'' (Some ''bg-gray-50 rounded p-2 text-sm'')
             [Element ''div'' (Some ''text-xs text-gray-500 mb-1'') [Text ''Item '', Num 5],
              Element ''span'' None [Text ''e'']],
           Element ''div'' (Some ''text-xs text-gray-500 text-center'')
             [Text ''+ '', Num 1, Text '' more items'']]])"
  using SmartValueRenderer_list [of "\<lambda>q. ''0''"
      "[JString ''a'', JString ''b'', JString ''c'', JString ''d'', JString ''e'', JString ''f'']"]
  by (simp add: render_eval)

subsection \<open>Keyed mappings\<close>

text \<open>
  Claim C4. The empty mapping renders the empty-object marker. A non-empty mapping
  renders its first three entries (all of them when there are at most three), each
  under its humanized key, in which underscores are spaces and every word starts with
  an upper-case letter, and, when there are more than three, a marker with the number
  of remaining properties.
\<close>

theorem SmartValueRenderer_mapping:
  "\<exists>props. map (\<lambda>p. SmartValueRenderer ns (snd p)) (take 3 M) = map Inr props
     \<and> SmartValueRenderer ns (JObject M) =
         (if M = [] then Inr (Element ''span'' (Some ''text-gray-400 italic'') [Text ''Empty object''])
          else
            Inr (Element ''div'' (Some ''space-y-2'')
              (map (\<lambda>q. Element ''div'' (Some ''bg-gray-50 rounded p-2'')
                           [Element ''div'' (Some ''text-xs font-medium text-gray-600 mb-1'')
                              [Text (spec_humanized (fst (fst q)))],
                            Element ''div'' (Some ''text-sm'') [snd q]])
                 (zip (take 3 M) props)
               @ (if length M > 3
                  then [Element ''div'' (Some ''text-xs text-gray-500 text-center'')
                          [Text ''+ '', Num (length M - 3), Text '' more properties'']]
                  else []))))"
proof -
  obtain props where props: "map (\<lambda>p. SmartValueRenderer ns (snd p)) (take 3 M) = map Inr props"
    using all_Inr_map [of "take 3 M" "\<lambda>p. SmartValueRenderer ns (snd p)"]
      SmartValueRenderer_returns by blast
  have boxes: "map (\<lambda>p. in_box (entry_box (fst p)) (SmartValueRenderer ns (snd p))) (take 3 M) =
      map Inr (map (\<lambda>q. entry_box (fst (fst q)) (snd q)) (zip (take 3 M) props))"
    using props by (rule boxes_zip)
  have "SmartValueRenderer ns (JObject M) =
         (if M = [] then Inr (Element ''span'' (Some ''text-gray-400 italic'') [Text ''Empty object''])
          else
            Inr (Element ''div'' (Some ''space-y-2'')
              (map (\<lambda>q. Element ''div'' (Some ''bg-gray-50 rounded p-2'')
                           [Element ''div'' (Some ''text-xs font-medium text-gray-600 mb-1'')
                              [Text (spec_humanized (fst (fst q)))],
                            Element ''div'' (Some ''text-sm'') [snd q]])
                 (zip (take 3 M) props)
               @ (if length M > 3
                  then [Element ''div'' (Some ''text-xs text-gray-500 text-center'')
                          [Text ''+ '', Num (length M - 3), Text '' more properties'']]
                  else []))))"
    unfolding SmartValueRenderer_JObject boxes sequence_map_Inr
    by (simp add: empty_object_marker_def entry_box_def more_properties_marker_def humanize_key_spec)
  with props show ?thesis by blast
qed

text \<open>A mapping of four entries: three are rendered, one is counted.\<close>

theorem SmartValueRenderer_mapping_witness:
  "SmartValueRenderer (\<lambda>q. ''0'')
      (JObject [(''first_name'', JString ''a''), (''x'', JNull), (''y'', JNull), (''z'', JNull)]) =
     Inr (Element ''div'' (Some ''space-y-2'')
          [Element ''div'' (Some ''bg-gray-50 rounded p-2'')
             [Element ''div'' (Some ''text-xs font-medium text-gray-600 mb-1'') [Text ''First Name''],
              Element ''div'' (Some ''text-sm'') [Element ''span'' None [Text ''a'']]],
           Element ''div'' (Some ''bg-gray-50 rounded p-2'')
             [Element ''div'' (Some ''text-xs font-medium text-gray-600 mb-1'') [Text ''X''],
              Element ''div'' (Some ''text-sm'')
                [Element ''span'' (Some ''text-gray-400 italic'') [Text ''null'']]],
           Element ''div'' (Some ''bg-gray-50 rounded p-2'')
             [Element ''div'' (Some ''text-xs font-medium text-gray-600 mb-1'') [Text ''Y''],
              Element ''div'' (Some ''text-sm'')
                [Element ''span'' (Some ''text-gray-400 italic'') [Text ''null'']]],
           Element ''div'' (Some ''text-xs text-gray-500 text-center'')
             [Text ''+ '', Num 1, Text '' more properties'']])"
  using SmartValueRenderer_mapping [of "\<lambda>q. ''0''"
      "[(''first_name'', JString ''a''), (''x'', JNull), (''y'', JNull), (''z'', JNull)]"]
  by (simp add: render_eval label_eval)

section \<open>Properties of the knowledge panel\<close>

subsection \<open>Date formatting\<close>

text \<open>
  Claim C5. On a date string that does not parse, \<open>formatDate\<close> throws nothing, but it
  does not return the sentinel \<open>Unknown\<close> of its \<open>catch\<close> block either: formatting the
  invalid date does not throw, so the \<open>try\<close> block returns \<open>Invalid Date\<close>.
\<close>

theorem formatDate_invalid_date:
  "parse dateString = None \<Longrightarrow>
     formatDate parse fmt dateString = ''Invalid Date''
     \<and> formatDate parse fmt dateString \<noteq> ''Unknown''"
  by (simp add: formatDate_def new_Date_def toLocaleDateString_def)

text \<open>The string \<open>not-a-date\<close>, under a parser that rejects it.\<close>

theorem formatDate_invalid_date_witness:
  "(\<lambda>s. if s = ''not-a-date'' then None else Some 0) ''not-a-date'' = None
   \<and> formatDate (\<lambda>s. if s = ''not-a-date'' then None else Some 0) (\<lambda>t. Inr ''Jan 1, 12:00 AM'')
         ''not-a-date'' = ''Invalid Date''"
  using formatDate_invalid_date
    [of "\<lambda>s. if s = ''not-a-date'' then None else Some 0" "''not-a-date''" "\<lambda>t. Inr ''Jan 1, 12:00 AM''"]
  by simp

subsection \<open>Confidence tiers\<close>

lemma literal_doubles:
  "literal_0_8 = 7205759403792794 / 2 ^ 53 \<and> abs (8 / 10 - literal_0_8) < 1 / 2 ^ 54
   \<and> literal_0_6 = 5404319552844595 / 2 ^ 53 \<and> abs (6 / 10 - literal_0_6) < 1 / 2 ^ 54"
  by (simp add: literal_0_8_def literal_0_6_def)

lemma js_ge_tiers:
  "js_ge c2 c1 \<Longrightarrow> tier_rank (getConfidenceColor c1) \<le> tier_rank (getConfidenceColor c2)"
  by (cases c1; cases c2)
    (simp_all add: getConfidenceColor_def tier_rank_def literal_0_8_def literal_0_6_def)

text \<open>
  Claim C6. The thresholds are the numbers \<open>0.8\<close> and \<open>0.6\<close>, that is the doubles
  nearest to 8/10 and 6/10. A confidence of at least \<open>0.8\<close> has the green pairing, one
  of at least \<open>0.6\<close> and below \<open>0.8\<close> the yellow pairing, and any other the red pairing.
  The bounds are inclusive: \<open>0.8\<close> itself is green and the double just below it yellow,
  \<open>0.6\<close> itself is yellow and the double just below it red; the number \<open>0.59999\<close> is
  red. Not-a-number is red. Both copies of the function agree, and the tier never
  decreases when the confidence grows.
\<close>

theorem getConfidenceColor_tiers:
  "getConfidenceColor (Finite q) =
     (if literal_0_8 \<le> q then ''text-green-600 bg-green-100''
      else if literal_0_6 \<le> q then ''text-yellow-600 bg-yellow-100''
      else ''text-red-600 bg-red-100'')
   \<and> literal_0_8 = 7205759403792794 / 2 ^ 53 \<and> abs (8 / 10 - literal_0_8) < 1 / 2 ^ 54
   \<and> literal_0_6 = 5404319552844595 / 2 ^ 53 \<and> abs (6 / 10 - literal_0_6) < 1 / 2 ^ 54
   \<and> getConfidenceColor (Finite literal_0_8) = ''text-green-600 bg-green-100''
   \<and> getConfidenceColor (Finite (7205759403792793 / 2 ^ 53)) = ''text-yellow-600 bg-yellow-100''
   \<and> getConfidenceColor (Finite literal_0_6) = ''text-yellow-600 bg-yellow-100''
   \<and> getConfidenceColor (Finite (5404319552844594 / 2 ^ 53)) = ''text-red-600 bg-red-100''
   \<and> getConfidenceColor (Finite (5404229480852048 / 2 ^ 53)) = ''text-red-600 bg-red-100''
   \<and> abs (59999 / 100000 - 5404229480852048 / 2 ^ 53) < (1 :: rat) / 2 ^ 54
   \<and> getConfidenceColor NaN = ''text-red-600 bg-red-100''
   \<and> getConfidenceColor PosInfinity = ''text-green-600 bg-green-100''
   \<and> getConfidenceColor NegInfinity = ''text-red-600 bg-red-100''
   \<and> InsightSection_getConfidenceColor c = getConfidenceColor c
   \<and> (js_ge c2 c1 \<longrightarrow> tier_rank (getConfidenceColor c1) \<le> tier_rank (getConfidenceColor c2))"
proof -
  have tiers: "getConfidenceColor (Finite r) =
     (if literal_0_8 \<le> r then ''text-green-600 bg-green-100''
      else if literal_0_6 \<le> r then ''text-yellow-600 bg-yellow-100''
      else ''text-red-600 bg-red-100'')" for r
    by (simp add: getConfidenceColor_def)
  have lt: "literal_0_6 < literal_0_8"
    by (simp add: literal_0_8_def literal_0_6_def)
  have b1: "getConfidenceColor (Finite (7205759403792793 / 2 ^ 53)) = ''text-yellow-600 bg-yellow-100''"
    unfolding tiers by (simp add: literal_0_8_def literal_0_6_def)
  have b2: "getConfidenceColor (Finite (5404319552844594 / 2 ^ 53)) = ''text-red-600 bg-red-100''"
    unfolding tiers by (simp add: literal_0_8_def literal_0_6_def)
  have b3: "getConfidenceColor (Finite (5404229480852048 / 2 ^ 53)) = ''text-red-600 bg-red-100''"
    unfolding tiers by (simp add: literal_0_8_def literal_0_6_def)
  have b4: "abs (59999 / 100000 - 5404229480852048 / 2 ^ 53) < (1 :: rat) / 2 ^ 54"
    by simp
  have b5: "getConfidenceColor (Finite literal_0_6) = ''text-yellow-600 bg-yellow-100''"
    unfolding tiers using lt by simp
  have special: "getConfidenceColor NaN = ''text-red-600 bg-red-100''"
    "getConfidenceColor PosInfinity = ''text-green-600 bg-green-100''"
    "getConfidenceColor NegInfinity = ''text-red-600 bg-red-100''"
    by (simp_all add: getConfidenceColor_def)
  have same: "InsightSection_getConfidenceColor c = getConfidenceColor c"
    by (simp add: getConfidenceColor_def InsightSection_getConfidenceColor_def)
  show ?thesis
    using tiers [of q] tiers [of literal_0_8] literal_doubles b1 b2 b3 b4 b5 special same
      js_ge_tiers [of c2 c1]
    by simp
qed

text \<open>The tiers at the numbers \<open>0.59999\<close>, \<open>0.7\<close> and \<open>0.8\<close>.\<close>

theorem getConfidenceColor_tiers_witness:
  "js_ge (Finite literal_0_8) (Finite (5404229480852048 / 2 ^ 53))
   \<and> tier_rank (getConfidenceColor (Finite (5404229480852048 / 2 ^ 53))) = 0
   \<and> tier_rank (getConfidenceColor (Finite literal_0_8)) = 2
   \<and> getConfidenceColor (Finite (3152519739159347 / 2 ^ 52)) = ''text-yellow-600 bg-yellow-100''
   \<and> InsightSection_getConfidenceColor NaN = ''text-red-600 bg-red-100''"
  using getConfidenceColor_tiers [of "3152519739159347 / 2 ^ 52" NaN "Finite literal_0_8"
      "Finite (5404229480852048 / 2 ^ 53)"]
  by (simp add: getConfidenceColor_def tier_rank_def literal_0_8_def literal_0_6_def)

subsection \<open>Management mode\<close>

text \<open>
  Claim C7. The management toggle complements \<open>managementMode\<close> and leaves
  \<open>activeSection\<close> alone, so toggling twice gives back the same state. With management
  mode on, the region holds the management component and no tab or section. Switched
  on and off again, it holds the four tabs, the one of the section that was active
  before marked active, followed by the content of that section: the tabbed view is
  the one shown before the two toggles.
\<close>

theorem management_mode_toggle:
  "managementMode (toggle_management st) = (\<not> managementMode st)
   \<and> activeSection (toggle_management st) = activeSection st
   \<and> toggle_management (toggle_management st) = st
   \<and> main_region props (toggle_management (st\<lparr>managementMode := False\<rparr>)) =
        [KnowledgeInsightManager (workspaceId props) (currentUserId props)]
   \<and> main_region props (st\<lparr>managementMode := True\<rparr>) =
        [KnowledgeInsightManager (workspaceId props) (currentUserId props)]
   \<and> main_region props (toggle_management (toggle_management (st\<lparr>managementMode := False\<rparr>))) =
        [SectionTab (activeSection st = Insights) ''Insights''
           (Some (length_or_0 (insights (knowledge props)))) bulb_emoji,
         SectionTab (activeSection st = Practices) ''Best Practices''
           (Some (length_or_0 (bestPractices (knowledge props)))) star_emoji,
         SectionTab (activeSection st = Learnings) ''Learnings''
           (Some (length_or_0 (learnings (knowledge props)))) books_emoji,
         SectionTab (activeSection st = Summary) ''Summary'' None chart_emoji]
        @ (case activeSection st of
             Insights \<Rightarrow>
               [InsightSection (bulb_emoji @ '' Insights & Discoveries'')
                  (items_or_empty (insights (knowledge props)))]
           | Practices \<Rightarrow>
               [InsightSection (star_emoji @ '' Best Practices'')
                  (items_or_empty (bestPractices (knowledge props)))]
           | Learnings \<Rightarrow>
               [InsightSection (books_emoji @ '' Learnings & Constraints'')
                  (items_or_empty (learnings (knowledge props)))]
           | Summary \<Rightarrow> [SummaryView (summary (knowledge props))]
           | Manage \<Rightarrow> [])
   \<and> main_region props (st\<lparr>managementMode := False\<rparr>) =
       main_region props (toggle_management (toggle_management (st\<lparr>managementMode := False\<rparr>)))
   \<and> main_region props (toggle_management (toggle_management st)) = main_region props st"
  by (cases "activeSection st") (simp_all add: toggle_management_def main_region_def)

text \<open>Management mode switched on and off again while the summary tab is selected.\<close>

theorem management_mode_toggle_witness:
  "main_region \<lparr>knowledge = \<lparr>insights = Some [JNull], bestPractices = None, learnings = Some [],
         summary = None\<rparr>,
       workspaceId = ''w'', currentUserId = ''default_user''\<rparr>
     (toggle_management (setActiveSection Summary initial_panel_state)) =
     [KnowledgeInsightManager ''w'' ''default_user'']
   \<and> toggle_management (toggle_management (setActiveSection Summary initial_panel_state)) =
       \<lparr>activeSection = Summary, managementMode = False\<rparr>
   \<and> main_region \<lparr>knowledge = \<lparr>insights = Some [JNull], bestPractices = None, learnings = Some [],
         summary = None\<rparr>,
       workspaceId = ''w'', currentUserId = ''default_user''\<rparr>
     (toggle_management (toggle_management (setActiveSection Summary initial_panel_state))) =
     [SectionTab False ''Insights'' (Some 1) bulb_emoji,
      SectionTab False ''Best Practices'' (Some 0) star_emoji,
      SectionTab False ''Learnings'' (Some 0) books_emoji,
      SectionTab True ''Summary'' None chart_emoji,
      SummaryView None]"
  using management_mode_toggle [of "setActiveSection Summary initial_panel_state"
      "\<lparr>knowledge = \<lparr>insights = Some [JNull], bestPractices = None, learnings = Some [],
           summary = None\<rparr>,
         workspaceId = ''w'', currentUserId = ''default_user''\<rparr>"]
  by (simp add: toggle_management_def setActiveSection_def initial_panel_state_def
      main_region_def length_or_0_def)

section \<open>Properties of the asset viewer\<close>

subsection \<open>The executive summary scenario\<close>

lemma humanize_executive_summary: "humanize_key ''executive_summary'' = ''Executive Summary''"
  by (simp add: label_eval)

lemma render_short_text:
  "SmartValueRenderer ns (JString ''Short text'') = Inr (Element ''span'' None [Text ''Short text''])"
  by (simp add: SmartValueRenderer.simps)

lemma stringify_scenario:
  "JSON_stringify ns (JObject [(''executive_summary'', JString ''Short text'')]) 2 =
     Inr (Some ([CHR ''{'', CHR 0x0A] @ ''  '' @ [CHR 0x22] @ ''executive_summary'' @ [CHR 0x22]
                @ '': '' @ [CHR 0x22] @ ''Short text'' @ [CHR 0x22] @ [CHR 0x0A, CHR ''}'']))"
  by (simp add: JSON_stringify_def wrap_parts_def member_text_def QuoteJSONString_def
      quote_char_def numeral_eq_Suc)

text \<open>
  Claim C8. For \<open>asset_data = { "executive_summary": "Short text" }\<close> the visual view
  shows exactly one field, labelled \<open>Executive Summary\<close>, with the value \<open>Short text\<close>,
  and the raw data view shows the JSON text of the input, indented by two spaces: an
  opening brace, a line with the quoted key, a colon, a space and the quoted value,
  and a closing brace.
\<close>

theorem executive_summary_scenario:
  "viewer_content ns \<lparr>asset_name = name,
       asset_data = JObject [(''executive_summary'', JString ''Short text'')]\<rparr> Visual =
     Inr [Element ''div'' (Some ''space-y-4'')
       [Element ''div'' (Some ''bg-blue-50 rounded-lg p-4 border border-blue-200'')
          [Element ''h4'' (Some ''font-semibold text-blue-800 mb-3'')
             [Text (clipboard_emoji @ '' Deliverable Content'')],
           Element ''div'' (Some ''space-y-3 max-h-96 overflow-y-auto'')
             [Element ''div'' (Some ''bg-white rounded-lg p-4 border border-blue-100'')
                [Element ''div'' (Some ''font-medium text-blue-700 mb-2'')
                   [Text ''Executive Summary''],
                 Element ''div'' (Some ''text-gray-700'')
                   [Element ''span'' None [Text ''Short text'']]]]]]]
   \<and> viewer_content ns \<lparr>asset_name = name,
       asset_data = JObject [(''executive_summary'', JString ''Short text'')]\<rparr> Data =
     Inr [Element ''div'' (Some ''bg-gray-900 rounded-lg p-4 overflow-auto'')
       [Element ''h3'' (Some ''text-white font-medium mb-3'') [Text ''Raw Asset Data''],
        Element ''pre'' (Some ''text-green-400 text-sm overflow-auto max-h-96'')
          [Text ([CHR ''{'', CHR 0x0A] @ ''  '' @ [CHR 0x22] @ ''executive_summary'' @ [CHR 0x22]
                 @ '': '' @ [CHR 0x22] @ ''Short text'' @ [CHR 0x22] @ [CHR 0x0A, CHR ''}''])]]]"
  by (simp add: viewer_content_def renderAssetContent_def in_box_def field_box_def
      humanize_executive_summary render_short_text stringify_scenario raw_data_view_def)

text \<open>The raw data view of the scenario for an asset named \<open>report\<close>.\<close>

theorem executive_summary_scenario_witness:
  "viewer_content (\<lambda>q. ''0'') \<lparr>asset_name = ''report'',
       asset_data = JObject [(''executive_summary'', JString ''Short text'')]\<rparr> Data =
     Inr [Element ''div'' (Some ''bg-gray-900 rounded-lg p-4 overflow-auto'')
       [Element ''h3'' (Some ''text-white font-medium mb-3'') [Text ''Raw Asset Data''],
        Element ''pre'' (Some ''text-green-400 text-sm overflow-auto max-h-96'')
          [Text ([CHR ''{'', CHR 0x0A] @ ''  '' @ [CHR 0x22] @ ''executive_summary'' @ [CHR 0x22]
                 @ '': '' @ [CHR 0x22] @ ''Short text'' @ [CHR 0x22] @ [CHR 0x0A, CHR ''}''])]]]"
  using executive_summary_scenario [of "\<lambda>q. ''0''" "''report''"] by simp

subsection \<open>The guard of the visual view\<close>

lemma renderAssetContent_entries:
  assumes "Object_entries d = Inr es" and "truthy d" and "typeof d = ''object''"
  shows "\<exists>rows. map (\<lambda>p. SmartValueRenderer ns (snd p)) es = map Inr rows
     \<and> renderAssetContent ns \<lparr>asset_name = name, asset_data = d\<rparr> =
         Inr (Element ''div'' (Some ''space-y-4'')
           [Element ''div'' (Some ''bg-blue-50 rounded-lg p-4 border border-blue-200'')
              [Element ''h4'' (Some ''font-semibold text-blue-800 mb-3'')
                 [Text (clipboard_emoji @ '' Deliverable Content'')],
               Element ''div'' (Some ''space-y-3 max-h-96 overflow-y-auto'')
                 (map (\<lambda>q. field_box (fst (fst q)) (snd q)) (zip es rows))]])"
proof -
  obtain rows where rows: "map (\<lambda>p. SmartValueRenderer ns (snd p)) es = map Inr rows"
    using all_Inr_map [of es "\<lambda>p. SmartValueRenderer ns (snd p)"] SmartValueRenderer_returns
    by blast
  have boxes: "map (\<lambda>p. in_box (field_box (fst p)) (SmartValueRenderer ns (snd p))) es =
      map Inr (map (\<lambda>q. field_box (fst (fst q)) (snd q)) (zip es rows))"
    using rows by (rule boxes_zip)
  have "renderAssetContent ns \<lparr>asset_name = name, asset_data = d\<rparr> =
      (case sequence (map (\<lambda>p. in_box (field_box (fst p)) (SmartValueRenderer ns (snd p))) es) of
         Inl e \<Rightarrow> Inl e
       | Inr rows \<Rightarrow>
           Inr (Element ''div'' (Some ''space-y-4'')
             [Element ''div'' (Some ''bg-blue-50 rounded-lg p-4 border border-blue-200'')
                [Element ''h4'' (Some ''font-semibold text-blue-800 mb-3'')
                   [Text (clipboard_emoji @ '' Deliverable Content'')],
                 Element ''div'' (Some ''space-y-3 max-h-96 overflow-y-auto'') rows]]))"
    using assms by (simp add: renderAssetContent_def)
  then have "renderAssetContent ns \<lparr>asset_name = name, asset_data = d\<rparr> =
         Inr (Element ''div'' (Some ''space-y-4'')
           [Element ''div'' (Some ''bg-blue-50 rounded-lg p-4 border border-blue-200'')
              [Element ''h4'' (Some ''font-semibold text-blue-800 mb-3'')
                 [Text (clipboard_emoji @ '' Deliverable Content'')],
               Element ''div'' (Some ''space-y-3 max-h-96 overflow-y-auto'')
                 (map (\<lambda>q. field_box (fst (fst q)) (snd q)) (zip es rows))]])"
    unfolding boxes sequence_map_Inr by simp
  with rows show ?thesis by blast
qed

text \<open>
  Claim C10. When \<open>asset_data\<close> is \<open>null\<close>, \<open>undefined\<close> or not of type object (a string
  and a number among them), the visual view is the placeholder \<open>No data available for
  this asset\<close>. It is something else exactly for an array or an object, whose entries
  are enumerated and rendered one field each.
\<close>

theorem renderAssetContent_guard:
  "((d = JNull \<or> d = JUndefined \<or> typeof d \<noteq> ''object'') \<longrightarrow>
      renderAssetContent ns \<lparr>asset_name = name, asset_data = d\<rparr> = Inr no_data_placeholder)
   \<and> renderAssetContent ns \<lparr>asset_name = name, asset_data = JString s\<rparr> = Inr no_data_placeholder
   \<and> renderAssetContent ns \<lparr>asset_name = name, asset_data = JNumber n\<rparr> = Inr no_data_placeholder
   \<and> ((renderAssetContent ns \<lparr>asset_name = name, asset_data = d\<rparr> \<noteq> Inr no_data_placeholder)
        = ((\<exists>xs. d = JArray xs) \<or> (\<exists>es. d = JObject es)))
   \<and> (\<exists>rows. map (\<lambda>p. SmartValueRenderer ns (snd p)) es = map Inr rows
        \<and> renderAssetContent ns \<lparr>asset_name = name, asset_data = JObject es\<rparr> =
            Inr (Element ''div'' (Some ''space-y-4'')
              [Element ''div'' (Some ''bg-blue-50 rounded-lg p-4 border border-blue-200'')
                 [Element ''h4'' (Some ''font-semibold text-blue-800 mb-3'')
                    [Text (clipboard_emoji @ '' Deliverable Content'')],
                  Element ''div'' (Some ''space-y-3 max-h-96 overflow-y-auto'')
                    (map (\<lambda>q. field_box (fst (fst q)) (snd q)) (zip es rows))]]))"
proof -
  have absent: "renderAssetContent ns \<lparr>asset_name = name, asset_data = v\<rparr> = Inr no_data_placeholder"
    if "v = JNull \<or> v = JUndefined \<or> typeof v \<noteq> ''object''" for v
    using that by (auto simp: renderAssetContent_def)
  have arr: "renderAssetContent ns \<lparr>asset_name = name, asset_data = JArray xs\<rparr> \<noteq> Inr no_data_placeholder"
    for xs
    using renderAssetContent_entries [of "JArray xs" "indexed xs" ns name]
    by (auto simp: no_data_placeholder_def)
  have obj: "renderAssetContent ns \<lparr>asset_name = name, asset_data = JObject es'\<rparr> \<noteq> Inr no_data_placeholder"
    for es'
    using renderAssetContent_entries [of "JObject es'" es' ns name]
    by (auto simp: no_data_placeholder_def)
  have iff: "(renderAssetContent ns \<lparr>asset_name = name, asset_data = d\<rparr> \<noteq> Inr no_data_placeholder)
        = ((\<exists>xs. d = JArray xs) \<or> (\<exists>es. d = JObject es))"
    using absent [of d] arr obj by (cases d) auto
  show ?thesis
    using absent [of d] absent [of "JString s"] absent [of "JNumber n"] iff
      renderAssetContent_entries [of "JObject es" es ns name]
    by simp
qed

text \<open>The boolean \<open>true\<close> as asset data.\<close>

theorem renderAssetContent_guard_witness:
  "typeof (JBoolean True) \<noteq> ''object''
   \<and> renderAssetContent (\<lambda>q. ''0'') \<lparr>asset_name = ''report'', asset_data = JBoolean True\<rparr> =
       Inr (Element ''div'' (Some ''text-gray-500'') [Text ''No data available for this asset''])"
  using renderAssetContent_guard [of "JBoolean True" "\<lambda>q. ''0''" "''report''" "''s''" NaN "[]"]
  by (simp add: no_data_placeholder_def)

section \<open>Properties of the label helpers\<close>

lemma spec_label_humanized_eval:
  "spec_label_humanized label =
     capitalize_words (map (\<lambda>c. if c = CHR ''_'' \<or> c = CHR ''-'' then CHR '' '' else c) label)"
  by (simp add: spec_label_humanized_def capitalize_words_spec)

text \<open>
  Claim C9, as stated, fails: neither helper produces the label in which underscores
  and hyphens are spaces and every word is capitalized. \<open>formatPersonalityTraits\<close> does
  not capitalize, and \<open>getAssetTypeInfo\<close> keeps hyphens.
\<close>

theorem label_helpers_counterexample:
  "formatPersonalityTraits (Some [''detail_oriented'']) = ''detail oriented''
   \<and> spec_label_humanized ''detail_oriented'' = ''Detail Oriented''
   \<and> formatPersonalityTraits (Some [''detail_oriented'']) \<noteq> spec_label_humanized ''detail_oriented''
   \<and> info_title (getAssetTypeInfo ''market-analysis'' JNull) = ''Market-Analysis''
   \<and> spec_label_humanized ''market-analysis'' = ''Market Analysis''
   \<and> info_title (getAssetTypeInfo ''market-analysis'' JNull) \<noteq> spec_label_humanized ''market-analysis''"
  by (simp add: formatPersonalityTraits_def getAssetTypeInfo_def spec_label_humanized_eval label_eval)

text \<open>
  Claim C9, amended. \<open>formatPersonalityTraits\<close> replaces every underscore and every
  hyphen of each trait by a space, keeps the case of the letters, and joins the traits
  with a comma and a space; an absent or empty list gives \<open>Non specificati\<close>.
  \<open>getAssetTypeInfo\<close> replaces every underscore of the asset name by a space and
  capitalizes every word; hyphens stay.
\<close>

theorem label_helpers_amended:
  "formatPersonalityTraits (Some (t # ts)) =
     join '', '' (map (map (\<lambda>c. if c = CHR ''_'' \<or> c = CHR ''-'' then CHR '' '' else c)) (t # ts))
   \<and> formatPersonalityTraits None = ''Non specificati''
   \<and> formatPersonalityTraits (Some []) = ''Non specificati''
   \<and> info_title (getAssetTypeInfo assetName assetData) = spec_humanized assetName"
proof -
  have "replace_all_char CHR ''-'' CHR '' '' (replace_all_char CHR ''_'' CHR '' '' trait) =
      map (\<lambda>c. if c = CHR ''_'' \<or> c = CHR ''-'' then CHR '' '' else c) trait" for trait
    by (simp add: replace_all_char_def)
  moreover have "info_title (getAssetTypeInfo assetName assetData) = spec_humanized assetName"
    using humanize_key_spec [of assetName] by (simp add: getAssetTypeInfo_def humanize_key_def)
  ultimately show ?thesis
    by (simp add: formatPersonalityTraits_def)
qed

text \<open>Two traits, one with an underscore and one with a hyphen.\<close>

theorem label_helpers_amended_witness:
  "formatPersonalityTraits (Some [''detail_oriented'', ''team-player'']) =
     ''detail oriented, team player''
   \<and> info_title (getAssetTypeInfo ''market_analysis'' JNull) = spec_humanized ''market_analysis''"
  using label_helpers_amended [of "''detail_oriented''" "[''team-player'']" "''market_analysis''" JNull]
  by simp

end
